theory Spec2Isabelle
  imports Complex_Main "HOL-Library.Word"
begin

section \<open>Data model\<close>

text \<open>
  A C++ \<open>float\<close> is modelled by the real number it denotes. The model covers the finite
  single-precision values; NaN and the infinities are outside it. Literals of the source are
  given by the exact value of their single-precision representation.
\<close>

type_synonym float = real

text \<open>\<open>vec3f\<close>: three packed floats (x, y, z). \<open>vec3i\<close>: three ints.\<close>

type_synonym vec3f = "float \<times> float \<times> float"
type_synonym vec3i = "int \<times> int \<times> int"

text \<open>The broadcasting constructors \<open>vec3f(a)\<close> and \<open>vec3i(a)\<close>.\<close>

definition vec3f1 :: "float \<Rightarrow> vec3f" where
  "vec3f1 a = (a, a, a)"

definition vec3i1 :: "int \<Rightarrow> vec3i" where
  "vec3i1 a = (a, a, a)"

text \<open>
  \<open>box3f\<close>: an axis-aligned box given by its two corners. \<open>box3fa\<close> is the same box over
  padded vectors; the conversion between the two keeps the six coordinates, so both are one
  type here.
\<close>

record box3f =
  lower :: vec3f
  upper :: vec3f

type_synonym box3fa = box3f

text \<open>\<open>VoxelRef\<close> is \<open>uint64_t\<close> (see the callbacks of Impi.cpp).\<close>

type_synonym VoxelRef = "64 word"

text \<open>
  \<open>float vertexValue[2][2][2]\<close>: a fixed array of eight floats, listed in memory order
  (element \<open>[i][j][k]\<close> at position \<open>4i + 2j + k\<close>).
\<close>

datatype corners = Corners float float float float float float float float

fun corner_list :: "corners \<Rightarrow> float list" where
  "corner_list (Corners c0 c1 c2 c3 c4 c5 c6 c7) = [c0, c1, c2, c3, c4, c5, c6, c7]"

text \<open>\<open>struct Octant\<close> of the TestOctant header.\<close>

record Octant =
  bounds :: box3f
  width :: float
  vertexValue :: corners

text \<open>\<open>struct TestOctant : Impi::VoxelSource\<close>: its only data member is the octant vector.\<close>

record TestOctant =
  octants :: "Octant list"

text \<open>
  Modelled from the spec: \<open>Impi::Voxel\<close> is declared in Impi.h, which is missing. The spec
  describes it as an axis-aligned box (\<open>boundsMin\<close>, \<open>boundsMax\<close>) and an array of eight
  corner values.
\<close>

record Voxel =
  boundsMin :: vec3f
  boundsMax :: vec3f
  cornerValues :: corners

text \<open>
  The concrete classes that Impi.cpp instantiates behind \<open>std::shared_ptr<VoxelSource>\<close>.
  Only TestOctant has its declaration available; the other classes are kept by name, the
  volume-backed ones with the volumes they are constructed from (\<open>'v\<close> stands for
  \<open>structured::LogicalVolume\<close>).
\<close>

datatype 'v VoxelSource =
    TestVoxelSrc
  | TestOctantSrc TestOctant
  | TestAMRSrc
  | StructuredVolumeSrc 'v
  | SegmentedVolumeSrc 'v 'v int

text \<open>
  The faults of the C++ program, as values: dereferencing a null pointer, reading a buffer
  past its end, a float-to-int conversion whose result does not fit \<open>int\<close> (all three are
  undefined behaviour in C++; the model stops at the first one), and an escaping
  \<open>std::runtime_error\<close>.
\<close>

datatype error =
    NullDereference
  | OutOfBounds
  | FloatToIntRange
  | RuntimeError string

text \<open>
  The data members of \<open>Impi\<close> that Impi.cpp reads and writes. A null \<open>voxelSource\<close> is
  \<open>None\<close>.
\<close>

record 'v Impi =
  voxelSource :: "'v VoxelSource option"
  isoValue :: float
  activeVoxelRefs :: "VoxelRef list"

section \<open>Parameters of a managed object\<close>

text \<open>
  The parameter table of the OSPRay object. A data parameter carries a buffer, which commit
  reads as a sequence of floats; \<open>getParamData\<close> yields the null pointer and \<open>getParam1f\<close>
  the supplied default when no parameter of that name and type is set.
\<close>

datatype Param =
    ParamData "float list"
  | Param1f float
  | ParamOther

type_synonym params = "string \<rightharpoonup> Param"

definition getParamData :: "params \<Rightarrow> string \<Rightarrow> float list option" where
  "getParamData ps name = (case ps name of Some (ParamData d) \<Rightarrow> Some d | _ \<Rightarrow> None)"

definition getParam1f :: "params \<Rightarrow> string \<Rightarrow> float \<Rightarrow> float" where
  "getParam1f ps name valIfNotFound =
     (case ps name of Some (Param1f v) \<Rightarrow> v | _ \<Rightarrow> valIfNotFound)"

section \<open>Float literals and conversions\<close>

text \<open>The single-precision values of the literals \<open>0.7f\<close> and \<open>3.2f\<close>.\<close>

definition f0_7 :: float where
  "f0_7 = 11744051 / 2 ^ 24"

definition f3_2 :: float where
  "f3_2 = 13421773 / 2 ^ 22"

text \<open>
  \<open>(int)f\<close>: the value is truncated towards zero; the conversion is undefined when the
  truncated value is not representable in a 32-bit \<open>int\<close>.
\<close>

definition float_to_int :: "float \<Rightarrow> error + int" where
  "float_to_int f =
     (let t = (if 0 \<le> f then \<lfloor>f\<rfloor> else \<lceil>f\<rceil>)
      in if - (2 ^ 31) \<le> t \<and> t < 2 ^ 31 then Inr t else Inl FloatToIntRange)"

text \<open>
  \<open>(vec3f *)data\<close>: the float buffer seen as packed triples; element \<open>i\<close> is made of the
  floats \<open>3i\<close>, \<open>3i+1\<close>, \<open>3i+2\<close>. A trailing incomplete triple is not an element.
\<close>

fun as_vec3f :: "float list \<Rightarrow> vec3f list" where
  "as_vec3f (a # b # c # rest) = (a, b, c) # as_vec3f rest"
| "as_vec3f _ = []"

section \<open>The octant source\<close>

text \<open>
  The member functions of TestOctant are defined in TestOctant.cpp, which is missing: only
  the class declaration is available, and \<open>initData\<close> is known from its call in
  Impi.cpp. The definitions of this section follow the spec's description of the octant
  source.
\<close>

text \<open>
  Modelled from the spec: the constructor \<open>TestOctant()\<close> (TestOctant.cpp is missing). The
  source is populated from the supplied parameters afterwards, so a new object holds no
  octant.
\<close>

definition TestOctant_new :: TestOctant where
  "TestOctant_new = \<lparr>octants = []\<rparr>"

text \<open>\<open>operator+\<close> on \<open>vec3f\<close>: componentwise.\<close>

definition vec3f_add :: "vec3f \<Rightarrow> vec3f \<Rightarrow> vec3f" where
  "vec3f_add a b =
     (case a of (ax, ay, az) \<Rightarrow> case b of (bx, by, bz) \<Rightarrow> (ax + bx, ay + by, az + bz))"

text \<open>
  Modelled from the spec: the body of the loop of \<open>initData\<close> (TestOctant.cpp is missing),
  that is the octant built from entry \<open>i\<close> of the three arrays; its lower
  corner is the \<open>i\<close>-th position, its width the \<open>i\<close>-th width, its corner values the floats
  \<open>8i .. 8i+7\<close> of the value array. The arrays arrive as raw pointers, so an entry that lies
  past the end of a buffer is an out-of-bounds read. The upper corner is the lower corner
  plus the width along each axis (the rounding of that float addition is not modelled).
\<close>

definition octant_at :: "vec3f list \<Rightarrow> float list \<Rightarrow> float list \<Rightarrow> nat \<Rightarrow> Octant" where
  "octant_at points widths vals i =
     \<lparr>bounds = \<lparr>lower = points ! i, upper = vec3f_add (points ! i) (vec3f1 (widths ! i))\<rparr>,
      width = widths ! i,
      vertexValue = Corners (vals ! (8 * i)) (vals ! (8 * i + 1))
                            (vals ! (8 * i + 2)) (vals ! (8 * i + 3))
                            (vals ! (8 * i + 4)) (vals ! (8 * i + 5))
                            (vals ! (8 * i + 6)) (vals ! (8 * i + 7))\<rparr>"

text \<open>
  Modelled from the spec: the reads that \<open>initData\<close> makes for entry \<open>i\<close> (TestOctant.cpp
  is missing), with the bounds of the three buffers written out.
\<close>

definition read_octant :: "vec3f list \<Rightarrow> float list \<Rightarrow> float list \<Rightarrow> nat \<Rightarrow> error + Octant" where
  "read_octant points widths vals i =
     (if i < length points \<and> i < length widths \<and> 8 * i + 8 \<le> length vals
      then Inr (octant_at points widths vals i)
      else Inl OutOfBounds)"

text \<open>
  Modelled from the spec: the loop of \<open>initData\<close> over \<open>i = 0 .. octNum - 1\<close>
  (TestOctant.cpp is missing), appending one octant per entry. The first argument counts
  the iterations left, the second is \<open>i\<close>.
\<close>

fun initData_loop ::
  "nat \<Rightarrow> nat \<Rightarrow> vec3f list \<Rightarrow> float list \<Rightarrow> float list \<Rightarrow> Octant list \<Rightarrow> error + Octant list"
where
  "initData_loop 0 i points widths vals acc = Inr acc"
| "initData_loop (Suc k) i points widths vals acc =
     (case read_octant points widths vals i of
        Inl e \<Rightarrow> Inl e
      | Inr oct \<Rightarrow> initData_loop k (Suc i) points widths vals (acc @ [oct]))"

text \<open>
  Modelled from the spec: \<open>TestOctant::initData(octNum, points, widths, values)\<close>
  (TestOctant.cpp is missing; the argument order is that of the call in Impi.cpp). A
  count that is zero or negative runs no iteration.
\<close>

definition initData ::
  "TestOctant \<Rightarrow> int \<Rightarrow> vec3f list \<Rightarrow> float list \<Rightarrow> float list \<Rightarrow> error + TestOctant"
where
  "initData t octNum points widths vals =
     (case initData_loop (nat octNum) 0 points widths vals (octants t) of
        Inl e \<Rightarrow> Inl e
      | Inr os \<Rightarrow> Inr (t\<lparr>octants := os\<rparr>))"

text \<open>
  Modelled from the spec: the lower end \<open>min(corners)\<close> of a cell's corner-value range
  (the range test of TestOctant.cpp is missing).
\<close>

definition cornerMin :: "corners \<Rightarrow> float" where
  "cornerMin c = Min (set (corner_list c))"

text \<open>
  Modelled from the spec: the upper end \<open>max(corners)\<close> of a cell's corner-value range
  (the range test of TestOctant.cpp is missing).
\<close>

definition cornerMax :: "corners \<Rightarrow> float" where
  "cornerMax c = Max (set (corner_list c))"

text \<open>
  Modelled from the spec: the iso condition of the enumeration (TestOctant.cpp is
  missing): the range [min(corners), max(corners)] contains the iso-value.
\<close>

definition isActive :: "Octant \<Rightarrow> float \<Rightarrow> bool" where
  "isActive oct isov = (cornerMin (vertexValue oct) \<le> isov \<and> isov \<le> cornerMax (vertexValue oct))"

text \<open>
  Modelled from the spec: \<open>TestOctant::getActiveVoxels(activeVoxels, isoValue)\<close>
  (TestOctant.cpp is missing): one linear pass over the octant sequence, each entry tested
  on its own. The declaration passes the result vector by reference; the second argument
  here is its content on entry. The spec makes the list a fresh result of every call, so
  the old content is dropped and the active octants are appended in sequence order, each
  as its flat index.
\<close>

definition TestOctant_getActiveVoxels :: "TestOctant \<Rightarrow> VoxelRef list \<Rightarrow> float \<Rightarrow> VoxelRef list" where
  "TestOctant_getActiveVoxels t activeVoxels isov =
     map of_nat (filter (\<lambda>i. isActive (octants t ! i) isov) [0..<length (octants t)])"

text \<open>
  Modelled from the spec: \<open>TestOctant::getVoxelBounds\<close> (TestOctant.cpp is missing), a
  decode of the reference and a table lookup. A reference beyond the octant sequence is a
  read past the end of the vector.
\<close>

definition TestOctant_getVoxelBounds :: "TestOctant \<Rightarrow> VoxelRef \<Rightarrow> error + box3fa" where
  "TestOctant_getVoxelBounds t voxelRef =
     (if unat voxelRef < length (octants t)
      then Inr (bounds (octants t ! unat voxelRef))
      else Inl OutOfBounds)"

text \<open>
  Modelled from the spec: \<open>TestOctant::getVoxel\<close> (TestOctant.cpp is missing), the same
  decode, returning the octant's bounds and its eight corner values.
\<close>

definition TestOctant_getVoxel :: "TestOctant \<Rightarrow> VoxelRef \<Rightarrow> error + Voxel" where
  "TestOctant_getVoxel t voxelRef =
     (if unat voxelRef < length (octants t)
      then (let oct = octants t ! unat voxelRef
            in Inr \<lparr>boundsMin = lower (bounds oct),
                    boundsMax = upper (bounds oct),
                    cornerValues = vertexValue oct\<rparr>)
      else Inl OutOfBounds)"

text \<open>All corner values stored in the source, octant by octant.\<close>

definition allCornerValues :: "TestOctant \<Rightarrow> float list" where
  "allCornerValues t = concat (map (\<lambda>oct. corner_list (vertexValue oct)) (octants t))"

text \<open>The global maximum and minimum corner value of the stored data.\<close>

definition globalMax :: "TestOctant \<Rightarrow> float" where
  "globalMax t = Max (set (allCornerValues t))"

definition globalMin :: "TestOctant \<Rightarrow> float" where
  "globalMin t = Min (set (allCornerValues t))"

section \<open>Virtual dispatch\<close>

text \<open>
  The code that Impi.cpp calls and that is not available: the volume loaders used by the
  disabled branches of \<open>initVoxelSourceAndIsoValue\<close> and the member functions of the
  source classes other than TestOctant. They are parameters of the model. \<open>loadRAW\<close>
  may throw.
\<close>

record 'v absent_code =
  createTestVolume :: "vec3i \<Rightarrow> 'v"
  loadRAW :: "string \<Rightarrow> vec3i \<Rightarrow> error + 'v"
  other_getActiveVoxels :: "'v VoxelSource \<Rightarrow> VoxelRef list \<Rightarrow> float \<Rightarrow> VoxelRef list"
  other_getVoxelBounds :: "'v VoxelSource \<Rightarrow> VoxelRef \<Rightarrow> error + box3fa"
  other_getVoxel :: "'v VoxelSource \<Rightarrow> VoxelRef \<Rightarrow> error + Voxel"

definition VoxelSource_getActiveVoxels ::
  "'v absent_code \<Rightarrow> 'v VoxelSource \<Rightarrow> VoxelRef list \<Rightarrow> float \<Rightarrow> VoxelRef list"
where
  "VoxelSource_getActiveVoxels ext src activeVoxels isov =
     (case src of
        TestOctantSrc t \<Rightarrow> TestOctant_getActiveVoxels t activeVoxels isov
      | _ \<Rightarrow> other_getActiveVoxels ext src activeVoxels isov)"

definition VoxelSource_getVoxelBounds ::
  "'v absent_code \<Rightarrow> 'v VoxelSource \<Rightarrow> VoxelRef \<Rightarrow> error + box3fa"
where
  "VoxelSource_getVoxelBounds ext src voxelRef =
     (case src of
        TestOctantSrc t \<Rightarrow> TestOctant_getVoxelBounds t voxelRef
      | _ \<Rightarrow> other_getVoxelBounds ext src voxelRef)"

definition VoxelSource_getVoxel ::
  "'v absent_code \<Rightarrow> 'v VoxelSource \<Rightarrow> VoxelRef \<Rightarrow> error + Voxel"
where
  "VoxelSource_getVoxel ext src voxelRef =
     (case src of
        TestOctantSrc t \<Rightarrow> TestOctant_getVoxel t voxelRef
      | _ \<Rightarrow> other_getVoxel ext src voxelRef)"

text \<open>
  \<open>std::dynamic_pointer_cast<testCase::TestOctant>\<close>: the object itself when its dynamic
  class is TestOctant, the null pointer otherwise (TestOctant derives from
  \<open>Impi::VoxelSource\<close> directly; the other source classes are not its subclasses).
\<close>

definition dynamic_pointer_cast_TestOctant :: "'v VoxelSource option \<Rightarrow> TestOctant option" where
  "dynamic_pointer_cast_TestOctant p =
     (case p of Some (TestOctantSrc t) \<Rightarrow> Some t | _ \<Rightarrow> None)"

section \<open>The other source variants\<close>

text \<open>
  Modelled from the spec: what an object of one of the classes TestVoxel, TestAMR,
  StructuredVolumeSource and SegmentedVolumeSource exposes (their files are missing). Each
  source holds leaf cells at the resolution its representation chooses: grid cells,
  coarse or fine cells of the segmented grid, the cells of a synthetic test case. A cell
  is known by its \<open>VoxelRef\<close>, whose layout is private to the variant, and has eight
  corner values. Which cells an object holds is representation-specific and is a
  parameter here.
\<close>

type_synonym 'v cell_table = "'v VoxelSource \<Rightarrow> (VoxelRef \<times> corners) list"

text \<open>
  Modelled from the spec: \<open>getActiveVoxels\<close> of the classes TestVoxel, TestAMR,
  StructuredVolumeSource and SegmentedVolumeSource (their files are missing). Every
  variant scans its cells once and applies to each, at the resolution chosen for it, the
  same iso condition as the octant source: the range [min(corners), max(corners)]
  contains the iso-value. The result is fresh, so the content of the vector on entry is
  dropped.
\<close>

definition variant_getActiveVoxels ::
  "'v cell_table \<Rightarrow> 'v VoxelSource \<Rightarrow> VoxelRef list \<Rightarrow> float \<Rightarrow> VoxelRef list"
where
  "variant_getActiveVoxels cells src activeVoxels isov =
     map fst (filter (\<lambda>cell. cornerMin (snd cell) \<le> isov \<and> isov \<le> cornerMax (snd cell))
                     (cells src))"

text \<open>
  All corner values a source holds: those of its octants, or those of the leaf cells of
  another variant.
\<close>

definition storedCornerValues :: "'v cell_table \<Rightarrow> 'v VoxelSource \<Rightarrow> float list" where
  "storedCornerValues cells src =
     (case src of
        TestOctantSrc t \<Rightarrow> allCornerValues t
      | _ \<Rightarrow> concat (map (\<lambda>cell. corner_list (snd cell)) (cells src)))"

text \<open>The global maximum and minimum corner value of the data a source holds.\<close>

definition sourceMax :: "'v cell_table \<Rightarrow> 'v VoxelSource \<Rightarrow> float" where
  "sourceMax cells src = Max (set (storedCornerValues cells src))"

definition sourceMin :: "'v cell_table \<Rightarrow> 'v VoxelSource \<Rightarrow> float" where
  "sourceMin cells src = Min (set (storedCornerValues cells src))"

section \<open>The geometry (Impi.cpp)\<close>

text \<open>
  The preprocessor chain of \<open>initVoxelSourceAndIsoValue\<close>: \<open>#if c0 ... #elif c1 ... #elif c2
  ... #elif c3 ... #elif c4 ... #else\<close>. The first condition that holds selects the branch.
  The source has the conditions 0, 1, 0, 0, 0.
\<close>

datatype branch =
    UseTestVoxel
  | UseTestOctant
  | UseTestAMR
  | UseStructuredTest
  | UseStructuredRaw
  | UseSegmented

definition select_branch :: "bool \<Rightarrow> bool \<Rightarrow> bool \<Rightarrow> bool \<Rightarrow> bool \<Rightarrow> branch" where
  "select_branch c0 c1 c2 c3 c4 =
     (if c0 then UseTestVoxel
      else if c1 then UseTestOctant
      else if c2 then UseTestAMR
      else if c3 then UseStructuredTest
      else if c4 then UseStructuredRaw
      else UseSegmented)"

definition compiled_branch :: branch where
  "compiled_branch = select_branch False True False False False"

text \<open>
  \<open>Impi::initVoxelSourceAndIsoValue\<close>, one case per preprocessor branch. In the fifth
  branch a \<open>std::runtime_error\<close> of the loader is caught and replaced by the test volume;
  in the last branch it escapes.
\<close>

definition initVoxelSourceAndIsoValue ::
  "'v absent_code \<Rightarrow> branch \<Rightarrow> 'v Impi \<Rightarrow> error + 'v Impi"
where
  "initVoxelSourceAndIsoValue ext br s =
     (case br of
        UseTestVoxel \<Rightarrow> Inr (s\<lparr>isoValue := 20, voxelSource := Some TestVoxelSrc\<rparr>)
      | UseTestOctant \<Rightarrow>
          Inr (s\<lparr>isoValue := f0_7, voxelSource := Some (TestOctantSrc TestOctant_new)\<rparr>)
      | UseTestAMR \<Rightarrow> Inr (s\<lparr>isoValue := f3_2, voxelSource := Some TestAMRSrc\<rparr>)
      | UseStructuredTest \<Rightarrow>
          Inr (s\<lparr>isoValue := 1 / 2,
                 voxelSource := Some (StructuredVolumeSrc (createTestVolume ext (vec3i1 64)))\<rparr>)
      | UseStructuredRaw \<Rightarrow>
          (case loadRAW ext ''magnetic.raw'' (vec3i1 512) of
             Inr volume \<Rightarrow>
               Inr (s\<lparr>isoValue := 1, voxelSource := Some (StructuredVolumeSrc volume)\<rparr>)
           | Inl (RuntimeError msg) \<Rightarrow>
               Inr (s\<lparr>isoValue := 1 / 2,
                      voxelSource := Some (StructuredVolumeSrc (createTestVolume ext (vec3i1 64)))\<rparr>)
           | Inl e \<Rightarrow> Inl e)
      | UseSegmented \<Rightarrow>
          (case loadRAW ext ''density_064_064_2.0.raw'' (vec3i1 64) of
             Inl e \<Rightarrow> Inl e
           | Inr volume \<Rightarrow>
               (case loadRAW ext ''density_064_064_2.0_seg.raw'' (vec3i1 64) of
                  Inl e \<Rightarrow> Inl e
                | Inr segvol \<Rightarrow>
                    Inr (s\<lparr>isoValue := 20,
                           voxelSource := Some (SegmentedVolumeSrc volume segvol 128)\<rparr>))))"

text \<open>
  The body of \<open>if (!voxelSource) { ... }\<close> in \<open>Impi::commit\<close>, statement by statement:
  construct the source, fetch the width array and read its first float as the octant
  count, fetch the point and value arrays, cast the source to TestOctant and call
  \<open>initData\<close> on the result. No pointer is checked before it is used. The cast pointer
  aliases \<open>voxelSource\<close>, so the initialized object is the one the field refers to.
\<close>

definition commit_init :: "'v absent_code \<Rightarrow> branch \<Rightarrow> params \<Rightarrow> 'v Impi \<Rightarrow> error + 'v Impi" where
  "commit_init ext br ps s =
     (case initVoxelSourceAndIsoValue ext br s of
        Inl e \<Rightarrow> Inl e
      | Inr s1 \<Rightarrow>
     (case getParamData ps ''octantWidthArray'' of
        None \<Rightarrow> Inl NullDereference
      | Some octWDataf \<Rightarrow>
     (case octWDataf of
        [] \<Rightarrow> Inl OutOfBounds
      | w0 # octWBuff \<Rightarrow>
     (case float_to_int w0 of
        Inl e \<Rightarrow> Inl e
      | Inr octNum \<Rightarrow>
     (case getParamData ps ''octantPointArray'' of
        None \<Rightarrow> Inl NullDereference
      | Some octPData \<Rightarrow>
     (case getParamData ps ''octantValueArray'' of
        None \<Rightarrow> Inl NullDereference
      | Some octVDataf \<Rightarrow>
     (case dynamic_pointer_cast_TestOctant (voxelSource s1) of
        None \<Rightarrow> Inl NullDereference
      | Some testOct \<Rightarrow>
     (case initData testOct octNum (as_vec3f octPData) octWBuff octVDataf of
        Inl e \<Rightarrow> Inl e
      | Inr testOct' \<Rightarrow> Inr (s1\<lparr>voxelSource := Some (TestOctantSrc testOct')\<rparr>)))))))))"

text \<open>\<open>Impi::commit\<close>.\<close>

definition commit :: "'v absent_code \<Rightarrow> branch \<Rightarrow> params \<Rightarrow> 'v Impi \<Rightarrow> error + 'v Impi" where
  "commit ext br ps s =
     (case (if voxelSource s = None then commit_init ext br ps s else Inr s) of
        Inl e \<Rightarrow> Inl e
      | Inr s2 \<Rightarrow> Inr (s2\<lparr>isoValue := getParam1f ps ''isoValue'' f0_7\<rparr>))"

text \<open>
  The callbacks \<open>externC_getVoxelBounds\<close> and \<open>externC_getVoxel\<close>: a virtual call through
  \<open>self->voxelSource\<close>.
\<close>

definition externC_getVoxelBounds :: "'v absent_code \<Rightarrow> 'v Impi \<Rightarrow> VoxelRef \<Rightarrow> error + box3fa" where
  "externC_getVoxelBounds ext self voxelRef =
     (case voxelSource self of
        None \<Rightarrow> Inl NullDereference
      | Some src \<Rightarrow> VoxelSource_getVoxelBounds ext src voxelRef)"

definition externC_getVoxel :: "'v absent_code \<Rightarrow> 'v Impi \<Rightarrow> VoxelRef \<Rightarrow> error + Voxel" where
  "externC_getVoxel ext self voxelRef =
     (case voxelSource self of
        None \<Rightarrow> Inl NullDereference
      | Some src \<Rightarrow> VoxelSource_getVoxel ext src voxelRef)"

text \<open>
  What \<open>Impi::finalize\<close> passes to the intersection builder \<open>ispc::Impi_finalize\<close>: the
  reference array, its size and the iso-value.
\<close>

record handoff =
  voxelRefs :: "VoxelRef list"
  numVoxels :: nat
  handoffIso :: float

text \<open>
  \<open>Impi::finalize\<close>: the member vector \<open>activeVoxelRefs\<close> is passed by reference to the
  source's \<open>getActiveVoxels\<close>, then handed to the builder as the address of its first
  element and its size (for an empty vector that address is formed but nothing is read
  through it). The call through a null \<open>voxelSource\<close> is a null dereference.
\<close>

definition finalize :: "'v absent_code \<Rightarrow> 'v Impi \<Rightarrow> error + ('v Impi \<times> handoff)" where
  "finalize ext s =
     (case voxelSource s of
        None \<Rightarrow> Inl NullDereference
      | Some src \<Rightarrow>
          (let refs = VoxelSource_getActiveVoxels ext src (activeVoxelRefs s) (isoValue s)
           in Inr (s\<lparr>activeVoxelRefs := refs\<rparr>,
                   \<lparr>voxelRefs = refs, numVoxels = length refs, handoffIso = isoValue s\<rparr>)))"

text \<open>
  A run of the geometry: the host commits and finalizes the object any number of times,
  in any order; the first fault ends the run.
\<close>

datatype impi_op = Commit params | Finalize

fun impi_step :: "'v absent_code \<Rightarrow> branch \<Rightarrow> 'v Impi \<Rightarrow> impi_op \<Rightarrow> error + 'v Impi" where
  "impi_step ext br s (Commit ps) = commit ext br ps s"
| "impi_step ext br s Finalize =
     (case finalize ext s of Inl e \<Rightarrow> Inl e | Inr (s', h) \<Rightarrow> Inr s')"

fun impi_run :: "'v absent_code \<Rightarrow> branch \<Rightarrow> 'v Impi \<Rightarrow> impi_op list \<Rightarrow> error + 'v Impi" where
  "impi_run ext br s [] = Inr s"
| "impi_run ext br s (opr # oprs) =
     (case impi_step ext br s opr of Inl e \<Rightarrow> Inl e | Inr s' \<Rightarrow> impi_run ext br s' oprs)"

text \<open>The object as its constructor leaves it: no source yet.\<close>

definition Impi_new :: "float \<Rightarrow> 'v Impi" where
  "Impi_new iso0 = \<lparr>voxelSource = None, isoValue = iso0, activeVoxelRefs = []\<rparr>"

section \<open>The viewer's scene-graph node\<close>

text \<open>
  \<open>ImpiSGNode\<close> (impiViewer.cpp): a scene-graph geometry node; its children hold the
  iso-value and the data pointer handed to the geometry. \<open>bounds()\<close> reads none of it.
\<close>

record ImpiSGNode =
  nodeName :: string
  nodeType :: string
  children :: "string \<rightharpoonup> Param"

definition ImpiSGNode_bounds :: "ImpiSGNode \<Rightarrow> box3f" where
  "ImpiSGNode_bounds node = \<lparr>lower = vec3f1 0, upper = vec3f1 1\<rparr>"

section \<open>Example inputs\<close>

text \<open>
  Stand-ins for the code that is not available: no raw file can be loaded, and the other
  source classes enumerate nothing.
\<close>

definition example_ext :: "unit absent_code" where
  "example_ext =
     \<lparr>createTestVolume = (\<lambda>dims. ()),
      loadRAW = (\<lambda>fileName dims. Inl (RuntimeError ''could not load volume'')),
      other_getActiveVoxels = (\<lambda>src activeVoxels isov. []),
      other_getVoxelBounds = (\<lambda>src voxelRef. Inl OutOfBounds),
      other_getVoxel = (\<lambda>src voxelRef. Inl OutOfBounds)\<rparr>"

text \<open>
  Two octants: a unit cell at the origin with corner values 0 and 1, and a cell of width
  1/2 next to it with corner values 2 and 3.
\<close>

definition example_params :: params where
  "example_params =
     [''octantWidthArray'' \<mapsto> ParamData [2, 1, 1 / 2],
      ''octantPointArray'' \<mapsto> ParamData [0, 0, 0, 1, 0, 0],
      ''octantValueArray'' \<mapsto> ParamData [0, 0, 0, 0, 1, 1, 1, 1, 2, 2, 2, 2, 3, 3, 3, 3],
      ''isoValue'' \<mapsto> Param1f (1 / 2)]"

definition example_octants :: TestOctant where
  "example_octants =
     \<lparr>octants =
        [\<lparr>bounds = \<lparr>lower = (0, 0, 0), upper = (1, 1, 1)\<rparr>, width = 1,
          vertexValue = Corners 0 0 0 0 1 1 1 1\<rparr>,
         \<lparr>bounds = \<lparr>lower = (1, 0, 0), upper = (3 / 2, 1 / 2, 1 / 2)\<rparr>, width = 1 / 2,
          vertexValue = Corners 2 2 2 2 3 3 3 3\<rparr>]\<rparr>"

definition example_committed :: "unit Impi" where
  "example_committed =
     \<lparr>voxelSource = Some (TestOctantSrc example_octants), isoValue = 1 / 2,
      activeVoxelRefs = []\<rparr>"

text \<open>
  The committed example after an enumeration at a low iso-value and a change of the
  iso-value to 5/2: the list still holds the reference of the first octant.
\<close>

definition example_stale :: "unit Impi" where
  "example_stale =
     \<lparr>voxelSource = Some (TestOctantSrc example_octants), isoValue = 5 / 2,
      activeVoxelRefs = [0]\<rparr>"

text \<open>
  Leaf cells for the other variants: one cell with corner values 0 and 1 for the single
  test voxel and for a 2x2x2 grid, two cells for the AMR test case and for a segmented
  grid.
\<close>

definition example_cells :: "unit cell_table" where
  "example_cells src =
     (case src of
        TestVoxelSrc \<Rightarrow> [(0, Corners 0 0 0 0 1 1 1 1)]
      | TestOctantSrc t \<Rightarrow> []
      | TestAMRSrc \<Rightarrow> [(0, Corners 0 1 2 3 4 5 6 7), (8, Corners 3 3 3 3 4 4 4 4)]
      | StructuredVolumeSrc vol \<Rightarrow> [(0, Corners 0 0 0 0 1 1 1 1)]
      | SegmentedVolumeSrc vol seg n \<Rightarrow>
          [(0, Corners 0 0 0 0 1 1 1 1), (1, Corners 1 1 1 1 2 2 2 2)])"

section \<open>Auxiliary facts\<close>

lemma compiled_branch_eq: "compiled_branch = UseTestOctant"
  by (simp add: compiled_branch_def select_branch_def)

lemma length_as_vec3f: "length (as_vec3f xs) = length xs div 3"
  by (induction xs rule: as_vec3f.induct) simp_all

lemma nth_as_vec3f:
  "i < length xs div 3 \<Longrightarrow> as_vec3f xs ! i = (xs ! (3 * i), xs ! (3 * i + 1), xs ! (3 * i + 2))"
proof (induction xs arbitrary: i rule: as_vec3f.induct)
  case (1 a b c rest)
  show ?case
  proof (cases i)
    case 0
    then show ?thesis by simp
  next
    case (Suc j)
    with "1.prems" have "j < length rest div 3" by simp
    from "1.IH" [OF this] Suc show ?thesis by simp
  qed
qed simp_all

lemma initData_loop_ok:
  "i + k \<le> length points \<Longrightarrow> i + k \<le> length widths \<Longrightarrow> 8 * (i + k) \<le> length vals \<Longrightarrow>
   initData_loop k i points widths vals acc =
     Inr (acc @ map (octant_at points widths vals) [i..<i + k])"
proof (induction k arbitrary: i acc)
  case 0
  then show ?case by simp
next
  case (Suc k)
  have r: "read_octant points widths vals i = Inr (octant_at points widths vals i)"
    using Suc.prems by (simp add: read_octant_def)
  have ih: "initData_loop k (Suc i) points widths vals (acc @ [octant_at points widths vals i]) =
        Inr ((acc @ [octant_at points widths vals i]) @
             map (octant_at points widths vals) [Suc i..<Suc i + k])"
    using Suc.prems by (intro Suc.IH) simp_all
  have u: "[i..<Suc (i + k)] = i # [Suc i..<Suc (i + k)]"
    by (simp add: upt_conv_Cons)
  show ?case
    using r ih by (simp del: upt_Suc add: u)
qed

lemma initData_ok:
  assumes "nat n \<le> length points" "nat n \<le> length widths" "8 * nat n \<le> length vals"
  shows "initData t n points widths vals =
           Inr (t\<lparr>octants := octants t @ map (octant_at points widths vals) [0..<nat n]\<rparr>)"
  using initData_loop_ok [of 0 "nat n" points widths vals "octants t"] assms
  by (simp add: initData_def)

lemma float_to_int_Inr:
  "float_to_int f = Inr n \<Longrightarrow>
   n = (if 0 \<le> f then \<lfloor>f\<rfloor> else \<lceil>f\<rceil>) \<and> - (2 ^ 31) \<le> n \<and> n < 2 ^ 31"
  by (auto simp: float_to_int_def Let_def split: if_splits)

lemma commit_first_ok:
  assumes src: "voxelSource s = None"
    and w: "getParamData ps ''octantWidthArray'' = Some (w0 # ws)"
    and p: "getParamData ps ''octantPointArray'' = Some pd"
    and v: "getParamData ps ''octantValueArray'' = Some vd"
    and n: "float_to_int w0 = Inr n"
    and lw: "nat n \<le> length ws"
    and lp: "3 * nat n \<le> length pd"
    and lv: "8 * nat n \<le> length vd"
  shows "commit ext UseTestOctant ps s =
           Inr (s\<lparr>voxelSource :=
                     Some (TestOctantSrc \<lparr>octants = map (octant_at (as_vec3f pd) ws vd) [0..<nat n]\<rparr>),
                   isoValue := getParam1f ps ''isoValue'' f0_7\<rparr>)"
proof -
  have "nat n \<le> length (as_vec3f pd)"
    using lp by (simp add: length_as_vec3f)
  from initData_ok [OF this lw lv, of TestOctant_new]
  have "initData TestOctant_new n (as_vec3f pd) ws vd =
          Inr \<lparr>octants = map (octant_at (as_vec3f pd) ws vd) [0..<nat n]\<rparr>"
    by (simp add: TestOctant_new_def)
  then show ?thesis
    using src w p v n
    by (simp add: commit_def commit_init_def initVoxelSourceAndIsoValue_def
        dynamic_pointer_cast_TestOctant_def)
qed

lemma commit_Inr_source:
  "commit ext br ps s = Inr s' \<Longrightarrow> voxelSource s' \<noteq> None"
  by (auto simp: commit_def commit_init_def split: if_splits sum.splits option.splits list.splits)

lemma commit_committed:
  "voxelSource s \<noteq> None \<Longrightarrow>
   commit ext br ps s = Inr (s\<lparr>isoValue := getParam1f ps ''isoValue'' f0_7\<rparr>)"
  by (auto simp: commit_def)

lemma commit_isoValue:
  "commit ext br ps s = Inr s' \<Longrightarrow> isoValue s' = getParam1f ps ''isoValue'' f0_7"
  by (auto simp: commit_def split: sum.splits)

lemma example_first_commit:
  "commit example_ext compiled_branch example_params (Impi_new 0) = Inr example_committed"
  by (simp add: commit_def commit_init_def initVoxelSourceAndIsoValue_def compiled_branch_def
      select_branch_def example_params_def Impi_new_def getParamData_def getParam1f_def
      float_to_int_def dynamic_pointer_cast_TestOctant_def initData_def TestOctant_new_def
      read_octant_def octant_at_def vec3f_add_def vec3f1_def example_octants_def
      example_committed_def numeral_2_eq_2)

lemma octants_from_arrays:
  assumes "i < n" "n \<le> length ws" "3 * n \<le> length pd"
  shows "width (map (octant_at (as_vec3f pd) ws vd) [0..<n] ! i) = ws ! i"
    and "lower (bounds (map (octant_at (as_vec3f pd) ws vd) [0..<n] ! i))
           = (pd ! (3 * i), pd ! (3 * i + 1), pd ! (3 * i + 2))"
    and "vertexValue (map (octant_at (as_vec3f pd) ws vd) [0..<n] ! i)
           = Corners (vd ! (8 * i)) (vd ! (8 * i + 1)) (vd ! (8 * i + 2)) (vd ! (8 * i + 3))
                     (vd ! (8 * i + 4)) (vd ! (8 * i + 5)) (vd ! (8 * i + 6)) (vd ! (8 * i + 7))"
proof -
  have "i < length pd div 3" using assms by linarith
  then show "lower (bounds (map (octant_at (as_vec3f pd) ws vd) [0..<n] ! i))
           = (pd ! (3 * i), pd ! (3 * i + 1), pd ! (3 * i + 2))"
    using assms by (simp add: octant_at_def nth_as_vec3f)
qed (use assms in \<open>simp_all add: octant_at_def\<close>)

lemma init_compiled:
  "initVoxelSourceAndIsoValue ext compiled_branch s =
     Inr (s\<lparr>isoValue := f0_7, voxelSource := Some (TestOctantSrc TestOctant_new)\<rparr>)"
  by (simp add: initVoxelSourceAndIsoValue_def compiled_branch_eq)

lemma init_other_cast:
  "br \<noteq> UseTestOctant \<Longrightarrow> initVoxelSourceAndIsoValue ext br s = Inr s1 \<Longrightarrow>
   dynamic_pointer_cast_TestOctant (voxelSource s1) = None"
  by (cases br)
     (auto simp: initVoxelSourceAndIsoValue_def dynamic_pointer_cast_TestOctant_def
           split: sum.splits error.splits)

lemma initData_loop_error:
  "initData_loop k i points widths vals acc = Inl e \<Longrightarrow> e = OutOfBounds"
  by (induction k arbitrary: i acc) (auto simp: read_octant_def split: if_splits sum.splits)

lemma initData_error: "initData t n points widths vals = Inl e \<Longrightarrow> e = OutOfBounds"
  by (auto simp: initData_def split: sum.splits dest: initData_loop_error)

lemma corner_list_nonempty: "corner_list c \<noteq> []"
  by (cases c) simp

lemma corner_values_stored:
  "i < length (octants t) \<Longrightarrow>
   set (corner_list (vertexValue (octants t ! i))) \<subseteq> set (allCornerValues t)"
  by (auto simp: allCornerValues_def intro!: bexI [of _ "octants t ! i"])

lemma cornerMax_le_globalMax:
  assumes "i < length (octants t)"
  shows "cornerMax (vertexValue (octants t ! i)) \<le> globalMax t"
proof -
  have "cornerMax (vertexValue (octants t ! i)) \<in> set (corner_list (vertexValue (octants t ! i)))"
    unfolding cornerMax_def by (rule Max_in) (simp_all add: corner_list_nonempty)
  then have "cornerMax (vertexValue (octants t ! i)) \<in> set (allCornerValues t)"
    using corner_values_stored [OF assms] by blast
  then show ?thesis
    unfolding globalMax_def by (intro Max_ge) simp_all
qed

lemma globalMin_le_cornerMin:
  assumes "i < length (octants t)"
  shows "globalMin t \<le> cornerMin (vertexValue (octants t ! i))"
proof -
  have "cornerMin (vertexValue (octants t ! i)) \<in> set (corner_list (vertexValue (octants t ! i)))"
    unfolding cornerMin_def by (rule Min_in) (simp_all add: corner_list_nonempty)
  then have "cornerMin (vertexValue (octants t ! i)) \<in> set (allCornerValues t)"
    using corner_values_stored [OF assms] by blast
  then show ?thesis
    unfolding globalMin_def by (intro Min_le) simp_all
qed

lemma example_globalMax: "globalMax example_octants = 3"
  by (simp add: globalMax_def allCornerValues_def example_octants_def)

lemma example_globalMin: "globalMin example_octants = 0"
  by (simp add: globalMin_def allCornerValues_def example_octants_def)

lemma octant_inactive_outside_range:
  assumes "globalMax t < isov \<or> isov < globalMin t"
  shows "TestOctant_getActiveVoxels t activeVoxels isov = []"
proof -
  have "\<not> isActive (octants t ! i) isov" if "i < length (octants t)" for i
    using assms cornerMax_le_globalMax [OF that] globalMin_le_cornerMin [OF that]
    by (auto simp: isActive_def)
  then have "filter (\<lambda>i. isActive (octants t ! i) isov) [0..<length (octants t)] = []"
    by (simp add: filter_empty_conv)
  then show ?thesis
    by (simp add: TestOctant_getActiveVoxels_def)
qed

lemma cell_range_within:
  assumes "cell \<in> set cs"
  shows "Min (set (concat (map (\<lambda>cell. corner_list (snd cell)) cs))) \<le> cornerMin (snd cell)"
    and "cornerMax (snd cell) \<le> Max (set (concat (map (\<lambda>cell. corner_list (snd cell)) cs)))"
proof -
  let ?all = "set (concat (map (\<lambda>cell. corner_list (snd cell)) cs))"
  have sub: "set (corner_list (snd cell)) \<subseteq> ?all"
    using assms by auto
  have "cornerMin (snd cell) \<in> set (corner_list (snd cell))"
    unfolding cornerMin_def by (rule Min_in) (simp_all add: corner_list_nonempty)
  with sub have "cornerMin (snd cell) \<in> ?all" by blast
  then show "Min ?all \<le> cornerMin (snd cell)"
    by (intro Min_le) simp_all
  have "cornerMax (snd cell) \<in> set (corner_list (snd cell))"
    unfolding cornerMax_def by (rule Max_in) (simp_all add: corner_list_nonempty)
  with sub have "cornerMax (snd cell) \<in> ?all" by blast
  then show "cornerMax (snd cell) \<le> Max ?all"
    by (intro Max_ge) simp_all
qed

lemma variant_inactive_outside_range:
  assumes "Max (set (concat (map (\<lambda>cell. corner_list (snd cell)) (cells src)))) < isov
         \<or> isov < Min (set (concat (map (\<lambda>cell. corner_list (snd cell)) (cells src))))"
  shows "variant_getActiveVoxels cells src activeVoxels isov = []"
proof -
  have "\<not> (cornerMin (snd cell) \<le> isov \<and> isov \<le> cornerMax (snd cell))"
    if "cell \<in> set (cells src)" for cell
    using assms cell_range_within [OF that] by auto
  then show ?thesis
    by (simp add: variant_getActiveVoxels_def filter_empty_conv)
qed

lemma example_sourceMax: "sourceMax example_cells TestAMRSrc = 7"
  by (simp add: sourceMax_def storedCornerValues_def example_cells_def)

lemma example_sourceMin: "sourceMin example_cells TestAMRSrc = 0"
  by (simp add: sourceMin_def storedCornerValues_def example_cells_def)

lemma finalize_TestOctant:
  "voxelSource s = Some (TestOctantSrc t) \<Longrightarrow>
   finalize ext s =
     Inr (s\<lparr>activeVoxelRefs := TestOctant_getActiveVoxels t (activeVoxelRefs s) (isoValue s)\<rparr>,
          \<lparr>voxelRefs = TestOctant_getActiveVoxels t (activeVoxelRefs s) (isoValue s),
           numVoxels = length (TestOctant_getActiveVoxels t (activeVoxelRefs s) (isoValue s)),
           handoffIso = isoValue s\<rparr>)"
  by (simp add: finalize_def VoxelSource_getActiveVoxels_def Let_def)

lemma example_active_high:
  "map of_nat (filter (\<lambda>i. isActive (octants example_octants ! i) (5 / 2))
                 [0..<length (octants example_octants)]) = [1 :: VoxelRef]"
  by (simp add: example_octants_def isActive_def cornerMin_def cornerMax_def upt_conv_Cons)

lemma active_ref_in_range:
  assumes "r \<in> set (TestOctant_getActiveVoxels t activeVoxels isov)"
  shows "unat r < length (octants t)"
proof -
  from assms obtain i where i: "i < length (octants t)" and r: "r = of_nat i"
    by (auto simp: TestOctant_getActiveVoxels_def)
  have "unat r \<le> i"
    unfolding r by (simp add: unat_of_nat)
  with i show ?thesis by simp
qed

lemma impi_step_committed:
  assumes "voxelSource s \<noteq> None"
  shows "\<exists>s'. impi_step ext br s opr = Inr s' \<and> voxelSource s' = voxelSource s"
proof (cases opr)
  case (Commit ps)
  then show ?thesis using assms by (simp add: commit_committed)
next
  case Finalize
  then show ?thesis using assms by (auto simp: finalize_def Let_def)
qed

lemma impi_run_committed:
  "voxelSource s \<noteq> None \<Longrightarrow>
   \<exists>s'. impi_run ext br s oprs = Inr s' \<and> voxelSource s' = voxelSource s"
proof (induction oprs arbitrary: s)
  case Nil
  then show ?case by simp
next
  case (Cons opr oprs)
  from impi_step_committed [OF Cons.prems, of ext br opr]
  obtain s1 where s1: "impi_step ext br s opr = Inr s1" "voxelSource s1 = voxelSource s"
    by blast
  with Cons.prems have "voxelSource s1 \<noteq> None" by simp
  from Cons.IH [OF this] s1 show ?case by simp
qed

section \<open>Aggregate bounds of the viewer node\<close>

text \<open>
  C9: the bounds that the scene-graph node reports for the whole geometry are the unit
  cube, lower corner (0,0,0) and upper corner (1,1,1), whatever the node holds (iso-value
  child, data pointer, name) and hence whatever has been committed.
\<close>

theorem ImpiSGNode_bounds_unit_cube:
  "ImpiSGNode_bounds node = \<lparr>lower = (0, 0, 0), upper = (1, 1, 1)\<rparr>"
  by (simp add: ImpiSGNode_bounds_def vec3f1_def)

section \<open>Commit\<close>

text \<open>
  C8: a commit that returns leaves \<open>isoValue\<close> equal to the float parameter "isoValue"
  when that parameter is set, and equal to the default 0.7f otherwise. This holds for the
  first commit, which builds the source, and for every later one.
\<close>

theorem commit_sets_isoValue:
  assumes "commit ext br ps s = Inr s'"
  shows "isoValue s' = (case ps ''isoValue'' of Some (Param1f v) \<Rightarrow> v | _ \<Rightarrow> f0_7)"
  using commit_isoValue [OF assms] by (simp add: getParam1f_def)

text \<open>
  The first commit of the example reads the iso-value 1/2 from the parameters; a second
  commit without the parameter falls back to 0.7f.
\<close>

theorem commit_sets_isoValue_witness:
  "commit example_ext compiled_branch example_params (Impi_new 0) = Inr example_committed
   \<and> isoValue example_committed = 1 / 2
   \<and> commit example_ext compiled_branch Map.empty example_committed
       = Inr (example_committed\<lparr>isoValue := f0_7\<rparr>)
   \<and> isoValue (example_committed\<lparr>isoValue := f0_7\<rparr>) = 11744051 / 16777216"
proof -
  have c2: "commit example_ext compiled_branch Map.empty example_committed
              = Inr (example_committed\<lparr>isoValue := f0_7\<rparr>)"
    by (simp add: commit_def example_committed_def getParam1f_def)
  have "isoValue example_committed = 1 / 2"
    using commit_sets_isoValue [OF example_first_commit] by (simp add: example_params_def)
  moreover have "isoValue (example_committed\<lparr>isoValue := f0_7\<rparr>) = 11744051 / 16777216"
    using commit_sets_isoValue [OF c2] by (simp add: f0_7_def)
  ultimately show ?thesis
    using example_first_commit c2 by simp
qed

text \<open>
  C3: once a commit has returned (so the source exists), any further commit returns the
  same object with only \<open>isoValue\<close> replaced by the value read from the parameters; the
  \<open>voxelSource\<close> field, and with it the octant data, is the one the earlier commit left.
\<close>

theorem subsequent_commit_keeps_source:
  assumes "commit ext br ps0 s0 = Inr s1"
  shows "commit ext br ps s1 = Inr (s1\<lparr>isoValue := getParam1f ps ''isoValue'' f0_7\<rparr>)
         \<and> voxelSource (s1\<lparr>isoValue := getParam1f ps ''isoValue'' f0_7\<rparr>) = voxelSource s1"
  using commit_Inr_source [OF assms] by (simp add: commit_committed)

theorem subsequent_commit_keeps_source_witness:
  "commit example_ext compiled_branch example_params (Impi_new 0) = Inr example_committed
   \<and> commit example_ext compiled_branch [''isoValue'' \<mapsto> Param1f 3] example_committed
       = Inr (example_committed\<lparr>isoValue := 3\<rparr>)
   \<and> voxelSource (example_committed\<lparr>isoValue := 3\<rparr>) = Some (TestOctantSrc example_octants)"
  using subsequent_commit_keeps_source [OF example_first_commit, of "[''isoValue'' \<mapsto> Param1f 3]"]
    example_first_commit
  by (simp add: getParam1f_def example_committed_def)

text \<open>
  C2: on an object without a source, a commit whose parameters lack one of the three
  octant arrays does not return: it ends in a fault. The code has no check of its own; the
  fault is the dereference of the null pointer that \<open>getParamData\<close> returned (or an earlier
  fault of the same block).
\<close>

theorem commit_missing_array_fails:
  assumes "voxelSource s = None"
    and "getParamData ps ''octantWidthArray'' = None
       \<or> getParamData ps ''octantPointArray'' = None
       \<or> getParamData ps ''octantValueArray'' = None"
  shows "\<exists>e. commit ext br ps s = Inl e"
  using assms
  by (auto simp: commit_def commit_init_def split: sum.splits option.splits list.splits)

text \<open>The example parameters without the value array: the commit stops at the null pointer.\<close>

theorem commit_missing_array_fails_witness:
  "voxelSource (Impi_new 0 :: unit Impi) = None
   \<and> getParamData (example_params(''octantValueArray'' := None)) ''octantValueArray'' = None
   \<and> commit example_ext compiled_branch (example_params(''octantValueArray'' := None)) (Impi_new 0)
       = Inl NullDereference"
proof -
  have a: "voxelSource (Impi_new 0 :: unit Impi) = None"
    by (simp add: Impi_new_def)
  have b: "getParamData (example_params(''octantValueArray'' := None)) ''octantValueArray'' = None"
    by (simp add: getParamData_def)
  from commit_missing_array_fails [OF a disjI2 [OF disjI2 [OF b]], of example_ext compiled_branch]
  obtain e where e: "commit example_ext compiled_branch
      (example_params(''octantValueArray'' := None)) (Impi_new 0) = Inl e"
    by blast
  have "commit example_ext compiled_branch
      (example_params(''octantValueArray'' := None)) (Impi_new 0) = Inl NullDereference"
    by (simp add: commit_def commit_init_def initVoxelSourceAndIsoValue_def compiled_branch_def
        select_branch_def example_params_def Impi_new_def getParamData_def float_to_int_def)
  with a b e show ?thesis by simp
qed

text \<open>
  C5: on the first commit (compiled configuration) with the three arrays present, the
  octant count is the first float of the width array truncated towards zero; when the
  buffers hold that many entries the commit returns a TestOctant with exactly that many
  octants, and octant \<open>i\<close> takes its width from element \<open>i + 1\<close> of the width array, its
  lower corner from the \<open>i\<close>-th packed triple of the point buffer and its eight corner
  values from the floats \<open>8i .. 8i+7\<close> of the value buffer.
\<close>

theorem commit_parses_octant_arrays:
  assumes "voxelSource s = None"
    and "getParamData ps ''octantWidthArray'' = Some wd"
    and "getParamData ps ''octantPointArray'' = Some pd"
    and "getParamData ps ''octantValueArray'' = Some vd"
    and "wd \<noteq> []"
    and "float_to_int (wd ! 0) = Inr n"
    and "nat n < length wd" and "3 * nat n \<le> length pd" and "8 * nat n \<le> length vd"
  shows "\<exists>s' t. commit ext compiled_branch ps s = Inr s'
       \<and> voxelSource s' = Some (TestOctantSrc t)
       \<and> n = (if 0 \<le> wd ! 0 then \<lfloor>wd ! 0\<rfloor> else \<lceil>wd ! 0\<rceil>)
       \<and> length (octants t) = nat n
       \<and> (\<forall>i < nat n.
             width (octants t ! i) = wd ! (i + 1)
           \<and> lower (bounds (octants t ! i)) = (pd ! (3 * i), pd ! (3 * i + 1), pd ! (3 * i + 2))
           \<and> vertexValue (octants t ! i)
               = Corners (vd ! (8 * i)) (vd ! (8 * i + 1)) (vd ! (8 * i + 2)) (vd ! (8 * i + 3))
                         (vd ! (8 * i + 4)) (vd ! (8 * i + 5)) (vd ! (8 * i + 6)) (vd ! (8 * i + 7)))"
proof -
  from \<open>wd \<noteq> []\<close> obtain w0 ws where wd: "wd = w0 # ws"
    by (cases wd) auto
  have lw: "nat n \<le> length ws"
    using assms(7) wd by simp
  have n: "float_to_int w0 = Inr n"
    using assms(6) wd by simp
  let ?t = "\<lparr>octants = map (octant_at (as_vec3f pd) ws vd) [0..<nat n]\<rparr>"
  have c: "commit ext compiled_branch ps s =
             Inr (s\<lparr>voxelSource := Some (TestOctantSrc ?t),
                    isoValue := getParam1f ps ''isoValue'' f0_7\<rparr>)"
    unfolding compiled_branch_eq
    using assms(1) assms(2) [unfolded wd] assms(3) assms(4) n lw assms(8) assms(9)
    by (rule commit_first_ok)
  have tr: "n = (if 0 \<le> wd ! 0 then \<lfloor>wd ! 0\<rfloor> else \<lceil>wd ! 0\<rceil>)"
    using float_to_int_Inr [OF assms(6)] by simp
  have each: "\<forall>i < nat n.
             width (octants ?t ! i) = wd ! (i + 1)
           \<and> lower (bounds (octants ?t ! i)) = (pd ! (3 * i), pd ! (3 * i + 1), pd ! (3 * i + 2))
           \<and> vertexValue (octants ?t ! i)
               = Corners (vd ! (8 * i)) (vd ! (8 * i + 1)) (vd ! (8 * i + 2)) (vd ! (8 * i + 3))
                         (vd ! (8 * i + 4)) (vd ! (8 * i + 5)) (vd ! (8 * i + 6)) (vd ! (8 * i + 7))"
    using octants_from_arrays [OF _ lw assms(8), of _ vd] wd by simp
  show ?thesis
    using c tr each by (intro exI [of _ "s\<lparr>voxelSource := Some (TestOctantSrc ?t),
                    isoValue := getParam1f ps ''isoValue'' f0_7\<rparr>"] exI [of _ ?t]) simp
qed

theorem commit_parses_octant_arrays_witness:
  "\<exists>s' t. commit example_ext compiled_branch example_params (Impi_new 0) = Inr s'
     \<and> voxelSource s' = Some (TestOctantSrc t)
     \<and> length (octants t) = 2
     \<and> width (octants t ! 0) = 1
     \<and> width (octants t ! 1) = 1 / 2
     \<and> lower (bounds (octants t ! 1)) = (1, 0, 0)
     \<and> vertexValue (octants t ! 1) = Corners 2 2 2 2 3 3 3 3"
proof -
  have h1: "voxelSource (Impi_new 0 :: unit Impi) = None"
    by (simp add: Impi_new_def)
  have h2: "getParamData example_params ''octantWidthArray'' = Some [2, 1, 1 / 2]"
    by (simp add: getParamData_def example_params_def)
  have h3: "getParamData example_params ''octantPointArray'' = Some [0, 0, 0, 1, 0, 0]"
    by (simp add: getParamData_def example_params_def)
  have h4: "getParamData example_params ''octantValueArray''
              = Some [0, 0, 0, 0, 1, 1, 1, 1, 2, 2, 2, 2, 3, 3, 3, 3]"
    by (simp add: getParamData_def example_params_def)
  have h5: "[2, 1, 1 / 2 :: float] \<noteq> []"
    by simp
  have h6: "float_to_int ([2, 1, 1 / 2] ! 0) = Inr 2"
    by (simp add: float_to_int_def)
  have h7: "nat 2 < length [2, 1, 1 / 2 :: float]"
    by simp
  have h8: "3 * nat 2 \<le> length [0, 0, 0, 1, 0, 0 :: float]"
    by simp
  have h9: "8 * nat 2 \<le> length [0, 0, 0, 0, 1, 1, 1, 1, 2, 2, 2, 2, 3, 3, 3, 3 :: float]"
    by simp
  from commit_parses_octant_arrays [OF h1 h2 h3 h4 h5 h6 h7 h8 h9, of example_ext]
  obtain s' t where c: "commit example_ext compiled_branch example_params (Impi_new 0) = Inr s'"
    and t: "voxelSource s' = Some (TestOctantSrc t)"
    and len: "length (octants t) = nat 2"
    and each: "\<forall>i < nat 2.
             width (octants t ! i) = [2, 1, 1 / 2] ! (i + 1)
           \<and> lower (bounds (octants t ! i))
               = ([0, 0, 0, 1, 0, 0] ! (3 * i), [0, 0, 0, 1, 0, 0] ! (3 * i + 1),
                  [0, 0, 0, 1, 0, 0] ! (3 * i + 2))
           \<and> vertexValue (octants t ! i)
               = Corners ([0, 0, 0, 0, 1, 1, 1, 1, 2, 2, 2, 2, 3, 3, 3, 3] ! (8 * i))
                         ([0, 0, 0, 0, 1, 1, 1, 1, 2, 2, 2, 2, 3, 3, 3, 3] ! (8 * i + 1))
                         ([0, 0, 0, 0, 1, 1, 1, 1, 2, 2, 2, 2, 3, 3, 3, 3] ! (8 * i + 2))
                         ([0, 0, 0, 0, 1, 1, 1, 1, 2, 2, 2, 2, 3, 3, 3, 3] ! (8 * i + 3))
                         ([0, 0, 0, 0, 1, 1, 1, 1, 2, 2, 2, 2, 3, 3, 3, 3] ! (8 * i + 4))
                         ([0, 0, 0, 0, 1, 1, 1, 1, 2, 2, 2, 2, 3, 3, 3, 3] ! (8 * i + 5))
                         ([0, 0, 0, 0, 1, 1, 1, 1, 2, 2, 2, 2, 3, 3, 3, 3] ! (8 * i + 6))
                         ([0, 0, 0, 0, 1, 1, 1, 1, 2, 2, 2, 2, 3, 3, 3, 3] ! (8 * i + 7))"
    by blast
  from each have e0: "width (octants t ! 0) = 1"
    by simp
  from each [rule_format, of 1]
  have e1: "width (octants t ! 1) = 1 / 2 \<and> lower (bounds (octants t ! 1)) = (1, 0, 0)
      \<and> vertexValue (octants t ! 1) = Corners 2 2 2 2 3 3 3 3"
    by (simp add: nth_Cons' )
  show ?thesis
    using c t len e0 e1 by (intro exI [of _ s'] exI [of _ t]) simp
qed

text \<open>
  C10: in the compiled configuration \<open>initVoxelSourceAndIsoValue\<close> always returns with a
  TestOctant in \<open>voxelSource\<close>, the cast yields that object, and the \<open>initData\<close> call of a
  first commit is never a null dereference. Under any other branch of the preprocessor
  chain, whenever the construction returns, the cast yields the null pointer and a first
  commit that gets as far as the \<open>initData\<close> call (arrays present, count readable) ends in
  the null dereference.
\<close>

theorem cast_succeeds_only_for_TestOctant:
  assumes "voxelSource s = None"
    and "getParamData ps ''octantWidthArray'' = Some (w0 # ws)"
    and "float_to_int w0 = Inr n"
    and "getParamData ps ''octantPointArray'' = Some pd"
    and "getParamData ps ''octantValueArray'' = Some vd"
  shows "(\<exists>s1. initVoxelSourceAndIsoValue ext compiled_branch s = Inr s1
            \<and> dynamic_pointer_cast_TestOctant (voxelSource s1) = Some TestOctant_new)
       \<and> commit ext compiled_branch ps s \<noteq> Inl NullDereference
       \<and> (\<forall>br s1. br \<noteq> compiled_branch \<and> initVoxelSourceAndIsoValue ext br s = Inr s1 \<longrightarrow>
             dynamic_pointer_cast_TestOctant (voxelSource s1) = None
           \<and> commit ext br ps s = Inl NullDereference)"
proof (intro conjI allI impI)
  show "\<exists>s1. initVoxelSourceAndIsoValue ext compiled_branch s = Inr s1
            \<and> dynamic_pointer_cast_TestOctant (voxelSource s1) = Some TestOctant_new"
    by (simp add: init_compiled dynamic_pointer_cast_TestOctant_def)
next
  show "commit ext compiled_branch ps s \<noteq> Inl NullDereference"
    using assms
    by (auto simp: commit_def commit_init_def init_compiled dynamic_pointer_cast_TestOctant_def
        split: sum.splits dest: initData_error)
next
  fix br s1
  assume a: "br \<noteq> compiled_branch \<and> initVoxelSourceAndIsoValue ext br s = Inr s1"
  then show c: "dynamic_pointer_cast_TestOctant (voxelSource s1) = None"
    using init_other_cast [of br ext s s1] by (simp add: compiled_branch_eq)
  show "commit ext br ps s = Inl NullDereference"
    using assms a c by (simp add: commit_def commit_init_def)
qed

theorem cast_succeeds_only_for_TestOctant_witness:
  "initVoxelSourceAndIsoValue example_ext UseTestAMR (Impi_new 0)
     = Inr \<lparr>voxelSource = Some TestAMRSrc, isoValue = f3_2, activeVoxelRefs = []\<rparr>
   \<and> UseTestAMR \<noteq> compiled_branch
   \<and> dynamic_pointer_cast_TestOctant (Some (TestAMRSrc :: unit VoxelSource)) = None
   \<and> commit example_ext UseTestAMR example_params (Impi_new 0) = Inl NullDereference
   \<and> commit example_ext compiled_branch example_params (Impi_new 0) \<noteq> Inl NullDereference"
proof -
  have h1: "voxelSource (Impi_new 0 :: unit Impi) = None"
    by (simp add: Impi_new_def)
  have h2: "getParamData example_params ''octantWidthArray'' = Some [2, 1, 1 / 2]"
    by (simp add: getParamData_def example_params_def)
  have h3: "float_to_int 2 = Inr 2"
    by (simp add: float_to_int_def)
  have h4: "getParamData example_params ''octantPointArray'' = Some [0, 0, 0, 1, 0, 0]"
    by (simp add: getParamData_def example_params_def)
  have h5: "getParamData example_params ''octantValueArray''
              = Some [0, 0, 0, 0, 1, 1, 1, 1, 2, 2, 2, 2, 3, 3, 3, 3]"
    by (simp add: getParamData_def example_params_def)
  have i: "initVoxelSourceAndIsoValue example_ext UseTestAMR (Impi_new 0)
     = Inr \<lparr>voxelSource = Some TestAMRSrc, isoValue = f3_2, activeVoxelRefs = []\<rparr>"
    by (simp add: initVoxelSourceAndIsoValue_def Impi_new_def)
  have b: "UseTestAMR \<noteq> compiled_branch"
    by (simp add: compiled_branch_eq)
  note th = cast_succeeds_only_for_TestOctant [OF h1 h2 h3 h4 h5, of example_ext]
  from th have "commit example_ext compiled_branch example_params (Impi_new 0) \<noteq> Inl NullDereference"
    by blast
  moreover from th b i
  have "dynamic_pointer_cast_TestOctant
          (voxelSource \<lparr>voxelSource = Some (TestAMRSrc :: unit VoxelSource), isoValue = f3_2,
                        activeVoxelRefs = []\<rparr>) = None
      \<and> commit example_ext UseTestAMR example_params (Impi_new 0) = Inl NullDereference"
    by blast
  ultimately show ?thesis
    using i b by simp
qed

section \<open>Enumeration and lookup\<close>

text \<open>
  C1: for every source variant, an iso-value strictly above the largest corner value the
  source holds, or strictly below the smallest one, gives the empty list of active voxels
  from the virtual \<open>getActiveVoxels\<close>: for the octant source and for the four other
  classes, whatever cells their objects hold. The enumeration has no error result: the
  empty list is an ordinary return value.
\<close>

theorem getActiveVoxels_empty_outside_range:
  assumes "sourceMax cells src < isov \<or> isov < sourceMin cells src"
  shows "VoxelSource_getActiveVoxels (ext\<lparr>other_getActiveVoxels := variant_getActiveVoxels cells\<rparr>)
           src activeVoxels isov = []"
proof (cases src)
  case (TestOctantSrc t)
  with assms have "globalMax t < isov \<or> isov < globalMin t"
    by (simp add: sourceMax_def sourceMin_def storedCornerValues_def globalMax_def globalMin_def)
  from octant_inactive_outside_range [OF this] TestOctantSrc show ?thesis
    by (simp add: VoxelSource_getActiveVoxels_def)
next
  case TestVoxelSrc
  with assms variant_inactive_outside_range [of cells src isov activeVoxels] show ?thesis
    by (simp add: VoxelSource_getActiveVoxels_def sourceMax_def sourceMin_def storedCornerValues_def)
next
  case TestAMRSrc
  with assms variant_inactive_outside_range [of cells src isov activeVoxels] show ?thesis
    by (simp add: VoxelSource_getActiveVoxels_def sourceMax_def sourceMin_def storedCornerValues_def)
next
  case (StructuredVolumeSrc vol)
  with assms variant_inactive_outside_range [of cells src isov activeVoxels] show ?thesis
    by (simp add: VoxelSource_getActiveVoxels_def sourceMax_def sourceMin_def storedCornerValues_def)
next
  case (SegmentedVolumeSrc vol seg n)
  with assms variant_inactive_outside_range [of cells src isov activeVoxels] show ?thesis
    by (simp add: VoxelSource_getActiveVoxels_def sourceMax_def sourceMin_def storedCornerValues_def)
qed

text \<open>
  The AMR test case of the example holds corner values from 0 to 7: nothing is active at
  1000000 or at -1, whatever the result vector held before, while both cells are active
  at 7/2. The octants of the example hold values from 0 to 3: nothing is active at 4 or
  at -1, while the first octant is active at 1/2.
\<close>

theorem getActiveVoxels_empty_outside_range_witness:
  "sourceMax example_cells TestAMRSrc = 7 \<and> sourceMin example_cells TestAMRSrc = 0
   \<and> VoxelSource_getActiveVoxels
         (example_ext\<lparr>other_getActiveVoxels := variant_getActiveVoxels example_cells\<rparr>)
         TestAMRSrc [0] 1000000 = []
   \<and> VoxelSource_getActiveVoxels
         (example_ext\<lparr>other_getActiveVoxels := variant_getActiveVoxels example_cells\<rparr>)
         TestAMRSrc [0] (- 1) = []
   \<and> VoxelSource_getActiveVoxels
         (example_ext\<lparr>other_getActiveVoxels := variant_getActiveVoxels example_cells\<rparr>)
         TestAMRSrc [] (7 / 2) = [0, 8]
   \<and> sourceMax example_cells (TestOctantSrc example_octants) = 3
   \<and> sourceMin example_cells (TestOctantSrc example_octants) = 0
   \<and> VoxelSource_getActiveVoxels
         (example_ext\<lparr>other_getActiveVoxels := variant_getActiveVoxels example_cells\<rparr>)
         (TestOctantSrc example_octants) [0, 1] 4 = []
   \<and> TestOctant_getActiveVoxels example_octants [0, 1] (- 1) = []
   \<and> TestOctant_getActiveVoxels example_octants [] (1 / 2) = [0]"
proof -
  let ?ext = "example_ext\<lparr>other_getActiveVoxels := variant_getActiveVoxels example_cells\<rparr>"
  have a: "sourceMax example_cells TestAMRSrc < 1000000
         \<or> 1000000 < sourceMin example_cells TestAMRSrc"
    by (simp add: example_sourceMax)
  have b: "sourceMax example_cells TestAMRSrc < - 1 \<or> - 1 < sourceMin example_cells TestAMRSrc"
    by (simp add: example_sourceMin)
  have c: "VoxelSource_getActiveVoxels ?ext TestAMRSrc [] (7 / 2) = [0, 8]"
    by (simp add: VoxelSource_getActiveVoxels_def variant_getActiveVoxels_def example_cells_def
        cornerMin_def cornerMax_def)
  have m: "sourceMax example_cells (TestOctantSrc example_octants) = 3"
    by (simp add: sourceMax_def storedCornerValues_def example_globalMax [unfolded globalMax_def])
  have n: "sourceMin example_cells (TestOctantSrc example_octants) = 0"
    by (simp add: sourceMin_def storedCornerValues_def example_globalMin [unfolded globalMin_def])
  have d: "sourceMax example_cells (TestOctantSrc example_octants) < 4
         \<or> 4 < sourceMin example_cells (TestOctantSrc example_octants)"
    by (simp add: m)
  have e: "sourceMax example_cells (TestOctantSrc example_octants) < - 1
         \<or> - 1 < sourceMin example_cells (TestOctantSrc example_octants)"
    by (simp add: n)
  have f: "TestOctant_getActiveVoxels example_octants [0, 1] (- 1) = []"
    using getActiveVoxels_empty_outside_range [OF e, of example_ext "[0, 1]"]
    by (simp add: VoxelSource_getActiveVoxels_def)
  have g: "TestOctant_getActiveVoxels example_octants [] (1 / 2) = [0]"
    by (simp add: TestOctant_getActiveVoxels_def example_octants_def isActive_def
        cornerMin_def cornerMax_def upt_conv_Cons)
  show ?thesis
    using getActiveVoxels_empty_outside_range [OF a, of example_ext "[0]"]
      getActiveVoxels_empty_outside_range [OF b, of example_ext "[0]"]
      getActiveVoxels_empty_outside_range [OF d, of example_ext "[0, 1]"]
      example_sourceMax example_sourceMin c m n f g
    by simp
qed

text \<open>
  C4: with an octant source in place, \<open>finalize\<close> returns, and the list it hands to the
  builder (and leaves in \<open>activeVoxelRefs\<close>) is exactly the sequence of indices of the
  octants active at the current iso-value. The result is the same whatever
  \<open>activeVoxelRefs\<close> held before the call, so no reference of an earlier enumeration
  survives.
\<close>

theorem finalize_fresh_active_list:
  assumes "voxelSource s = Some (TestOctantSrc t)"
  shows "\<exists>s' h. finalize ext s = Inr (s', h)
       \<and> finalize ext (s\<lparr>activeVoxelRefs := previous\<rparr>) = Inr (s', h)
       \<and> activeVoxelRefs s' = voxelRefs h
       \<and> numVoxels h = length (voxelRefs h)
       \<and> voxelRefs h =
           map of_nat (filter (\<lambda>i. isActive (octants t ! i) (isoValue s)) [0..<length (octants t)])"
  using assms
  by (simp add: finalize_TestOctant TestOctant_getActiveVoxels_def)

text \<open>
  The list of the example still holds reference 0 from an enumeration at a lower
  iso-value; at 5/2 only the second octant is active and the builder receives just
  reference 1.
\<close>

theorem finalize_fresh_active_list_witness:
  "voxelSource example_stale = Some (TestOctantSrc example_octants)
   \<and> activeVoxelRefs example_stale = [0]
   \<and> finalize example_ext example_stale =
       Inr (example_stale\<lparr>activeVoxelRefs := [1]\<rparr>,
            \<lparr>voxelRefs = [1], numVoxels = 1, handoffIso = 5 / 2\<rparr>)"
proof -
  have h: "voxelSource example_stale = Some (TestOctantSrc example_octants)"
    by (simp add: example_stale_def)
  from finalize_fresh_active_list [OF h, of example_ext "[]"]
  obtain s' hd where f: "finalize example_ext example_stale = Inr (s', hd)"
    and a: "activeVoxelRefs s' = voxelRefs hd"
    and n: "numVoxels hd = length (voxelRefs hd)"
    and v: "voxelRefs hd = map of_nat (filter (\<lambda>i. isActive (octants example_octants ! i)
              (isoValue example_stale)) [0..<length (octants example_octants)])"
    by blast
  have v1: "voxelRefs hd = [1]"
    using v example_active_high by (simp add: example_stale_def)
  have "s' = example_stale\<lparr>activeVoxelRefs := [1]\<rparr>"
    using f a v1 by (auto simp: finalize_def example_stale_def Let_def)
  moreover have "hd = \<lparr>voxelRefs = [1], numVoxels = 1, handoffIso = 5 / 2\<rparr>"
    using f n v1 by (auto simp: finalize_def example_stale_def Let_def)
  ultimately show ?thesis
    using f h by (simp add: example_stale_def)
qed

text \<open>
  C6: every reference that the enumeration of an octant source returns resolves in both
  lookups, and the box returned by \<open>getVoxelBounds\<close> has the corners \<open>boundsMin\<close> and
  \<open>boundsMax\<close> of the voxel returned by \<open>getVoxel\<close>; the same holds through the two
  callbacks of the geometry that owns the source.
\<close>

theorem bounds_agree_with_voxel:
  assumes "r \<in> set (TestOctant_getActiveVoxels t activeVoxels isov)"
    and "voxelSource self = Some (TestOctantSrc t)"
  shows "\<exists>v. TestOctant_getVoxel t r = Inr v
       \<and> TestOctant_getVoxelBounds t r = Inr \<lparr>lower = boundsMin v, upper = boundsMax v\<rparr>
       \<and> externC_getVoxel ext self r = Inr v
       \<and> externC_getVoxelBounds ext self r = Inr \<lparr>lower = boundsMin v, upper = boundsMax v\<rparr>"
  using active_ref_in_range [OF assms(1)] assms(2)
  by (simp add: TestOctant_getVoxel_def TestOctant_getVoxelBounds_def externC_getVoxel_def
      externC_getVoxelBounds_def VoxelSource_getVoxel_def VoxelSource_getVoxelBounds_def Let_def)

theorem bounds_agree_with_voxel_witness:
  "(1 :: VoxelRef) \<in> set (TestOctant_getActiveVoxels example_octants [] (5 / 2))
   \<and> externC_getVoxel example_ext example_stale 1
       = Inr \<lparr>boundsMin = (1, 0, 0), boundsMax = (3 / 2, 1 / 2, 1 / 2),
              cornerValues = Corners 2 2 2 2 3 3 3 3\<rparr>
   \<and> externC_getVoxelBounds example_ext example_stale 1
       = Inr \<lparr>lower = (1, 0, 0), upper = (3 / 2, 1 / 2, 1 / 2)\<rparr>"
proof -
  have a: "(1 :: VoxelRef) \<in> set (TestOctant_getActiveVoxels example_octants [] (5 / 2))"
    using example_active_high by (simp add: TestOctant_getActiveVoxels_def)
  have h: "voxelSource example_stale = Some (TestOctantSrc example_octants)"
    by (simp add: example_stale_def)
  from bounds_agree_with_voxel [OF a h, of example_ext]
  obtain v where v: "externC_getVoxel example_ext example_stale 1 = Inr v"
    and b: "externC_getVoxelBounds example_ext example_stale 1
              = Inr \<lparr>lower = boundsMin v, upper = boundsMax v\<rparr>"
    by blast
  have "externC_getVoxel example_ext example_stale 1
       = Inr \<lparr>boundsMin = (1, 0, 0), boundsMax = (3 / 2, 1 / 2, 1 / 2),
              cornerValues = Corners 2 2 2 2 3 3 3 3\<rparr>"
    by (simp add: externC_getVoxel_def example_stale_def VoxelSource_getVoxel_def
        TestOctant_getVoxel_def example_octants_def)
  with v b a show ?thesis by auto
qed

text \<open>
  C7: on a geometry that has its source, any sequence of further commits and finalizes
  runs to completion and leaves \<open>voxelSource\<close> as it was, so \<open>getVoxel\<close> called for a
  reference after the sequence returns the value it returned before it. For an octant
  source and a reference within the octant sequence that value is the stored octant: its
  bounds and all eight corner values.
\<close>

theorem getVoxel_stable:
  assumes "voxelSource s \<noteq> None"
  shows "\<exists>s'. impi_run ext br s oprs = Inr s'
       \<and> voxelSource s' = voxelSource s
       \<and> externC_getVoxel ext s' r = externC_getVoxel ext s r
       \<and> (\<forall>t. voxelSource s = Some (TestOctantSrc t) \<and> unat r < length (octants t) \<longrightarrow>
             externC_getVoxel ext s' r =
               Inr \<lparr>boundsMin = lower (bounds (octants t ! unat r)),
                    boundsMax = upper (bounds (octants t ! unat r)),
                    cornerValues = vertexValue (octants t ! unat r)\<rparr>)"
proof -
  from impi_run_committed [OF assms, of ext br oprs]
  obtain s' where "impi_run ext br s oprs = Inr s'" "voxelSource s' = voxelSource s"
    by blast
  then show ?thesis
    by (auto simp: externC_getVoxel_def VoxelSource_getVoxel_def TestOctant_getVoxel_def Let_def)
qed

theorem getVoxel_stable_witness:
  "voxelSource example_committed \<noteq> None
   \<and> impi_run example_ext compiled_branch example_committed
        [Finalize, Commit [''isoValue'' \<mapsto> Param1f (5 / 2)], Finalize]
       = Inr (example_committed\<lparr>isoValue := 5 / 2, activeVoxelRefs := [1]\<rparr>)
   \<and> externC_getVoxel example_ext example_committed 0
       = Inr \<lparr>boundsMin = (0, 0, 0), boundsMax = (1, 1, 1),
              cornerValues = Corners 0 0 0 0 1 1 1 1\<rparr>
   \<and> externC_getVoxel example_ext
        (example_committed\<lparr>isoValue := 5 / 2, activeVoxelRefs := [1]\<rparr>) 0
       = Inr \<lparr>boundsMin = (0, 0, 0), boundsMax = (1, 1, 1),
              cornerValues = Corners 0 0 0 0 1 1 1 1\<rparr>"
proof -
  have h: "voxelSource example_committed \<noteq> None"
    by (simp add: example_committed_def)
  have run: "impi_run example_ext compiled_branch example_committed
        [Finalize, Commit [''isoValue'' \<mapsto> Param1f (5 / 2)], Finalize]
       = Inr (example_committed\<lparr>isoValue := 5 / 2, activeVoxelRefs := [1]\<rparr>)"
    by (simp add: example_committed_def finalize_def commit_def getParam1f_def
        VoxelSource_getActiveVoxels_def TestOctant_getActiveVoxels_def example_octants_def
        isActive_def cornerMin_def cornerMax_def upt_conv_Cons Let_def)
  have v: "externC_getVoxel example_ext example_committed 0
       = Inr \<lparr>boundsMin = (0, 0, 0), boundsMax = (1, 1, 1),
              cornerValues = Corners 0 0 0 0 1 1 1 1\<rparr>"
    by (simp add: externC_getVoxel_def example_committed_def VoxelSource_getVoxel_def
        TestOctant_getVoxel_def example_octants_def)
  from getVoxel_stable [OF h, of example_ext compiled_branch
      "[Finalize, Commit [''isoValue'' \<mapsto> Param1f (5 / 2)], Finalize]" 0]
  have "externC_getVoxel example_ext
        (example_committed\<lparr>isoValue := 5 / 2, activeVoxelRefs := [1]\<rparr>) 0
       = externC_getVoxel example_ext example_committed 0"
    using run by auto
  with h run v show ?thesis by simp
qed

end
